theory Spec2Isabelle
  imports Main "HOL-Library.AList"
begin

section \<open>The worker supervisor of \<^verbatim>\<open>src/index.js\<close>\<close>

text \<open>
  The module keeps three registries (\<^verbatim>\<open>Workers\<close>, \<^verbatim>\<open>ClusterWorkers\<close>,
  \<^verbatim>\<open>WorkerPids\<close>) and a class \<^verbatim>\<open>Worker\<close> whose methods branch on
  \<^verbatim>\<open>cluster.isMaster\<close>. The embedding keeps that shape: one process state with the
  role flag, the registries, the objects created by \<^verbatim>\<open>new Worker\<close> (a store indexed by
  object identity, since two objects may carry the same id), and logs of what the module
  hands to its collaborators: values sent over a child channel, values sent with
  \<^verbatim>\<open>process.send\<close>, listeners registered on \<^verbatim>\<open>cluster\<close> and \<^verbatim>\<open>process\<close>, calls of
  user callbacks, \<^verbatim>\<open>kill()\<close> and \<^verbatim>\<open>process.exit\<close>.

  Conventions.
  \<^item> \<^verbatim>\<open>Workers\<close> and \<^verbatim>\<open>ClusterWorkers\<close> are association lists in property insertion
    order (what \<^verbatim>\<open>for ... in\<close> and \<^verbatim>\<open>Object.values\<close> enumerate for keys that are not
    array indices). Worker ids are assumed not to name a member of \<^verbatim>\<open>Object.prototype\<close>.
  \<^item> A cluster worker object is identified by the pid of its process.
  \<^item> A user callback is opaque: calling it appends to the log \<open>calls\<close>. What a callback
    does with the API is a later action of the execution.
  \<^item> Node emits a child's \<^verbatim>\<open>online\<close> and \<^verbatim>\<open>exit\<close> first on the cluster worker object
    and then on \<^verbatim>\<open>cluster\<close>; a listener that throws ends the dispatch.
  \<^item> An execution only calls methods on objects that exist. To keep the functions total,
    a method that reads \<^verbatim>\<open>this\<close> throws a TypeError on a reference outside the store,
    and such a reference passed to \<^verbatim>\<open>to\<close> counts as the id \<^verbatim>\<open>undefined\<close>.
  \<^item> Not embedded: the listener-limit bookkeeping (\<^verbatim>\<open>MaxListeners\<close>,
    \<^verbatim>\<open>setMaxListeners\<close>), the instance method \<^verbatim>\<open>getWorkers\<close>, and what happens when a
    message arrives in the master. The master's message listener only calls the static
    \<^verbatim>\<open>to\<close>, \<^verbatim>\<open>emit\<close> and \<^verbatim>\<open>broadcast\<close>, and the listeners bound to handles only call
    user callbacks or \<^verbatim>\<open>handle.emit\<close>; all of these are actions of an execution in
    their own right. Listeners are recorded where they are registered. In a worker the
    emitter \<^verbatim>\<open>process\<close> is a collaborator: \<^verbatim>\<open>process.emit\<close> and \<^verbatim>\<open>process.exit\<close>
    are recorded with their arguments, and the listeners that Node then runs on
    \<^verbatim>\<open>process\<close> are not.
  \<^item> The exit status that a parent sees on POSIX is the low 8 bits of the code the
    child passed to \<^verbatim>\<open>process.exit\<close> (\<open>exit_status\<close>).
  The second copy of the class in \<^verbatim>\<open>src/index.js\<close> agrees with the first on every
  function embedded here.
\<close>

subsection \<open>Data\<close>

type_synonym wid = string
type_synonym pid = nat
type_synonym ref = nat
type_synonym fn = nat

datatype wstate = Connecting | Online | Closed

datatype error = ReferenceError | TypeError | Error

text \<open>Values carried as event data; \<open>WorkerObj\<close> is a Worker object as the channel
  serialises it (\<^verbatim>\<open>id\<close>, \<^verbatim>\<open>keepAlive\<close>, \<^verbatim>\<open>state\<close>).\<close>

datatype val = Null | Num int | Str string | WorkerObj wid bool wstate

text \<open>What travels over a channel: a bare string, or an object \<^verbatim>\<open>{id?, event, data}\<close>
  whose \<^verbatim>\<open>data\<close> is an argument array or the wrapper
  \<^verbatim>\<open>{receivers?, event, data}\<close> of a relayed emit.\<close>

datatype payload = Args "val list" | Wrapped "wid list option" string "val list"

datatype message = Bare string | Message "wid option" string payload

text \<open>Listener functions: a user function, or the closure
  \<^verbatim>\<open>() => worker.emit("----get-workers----", getValues(Workers))\<close> of the module.\<close>

datatype listener = Fn fn | GetWorkersResponder ref

text \<open>Listeners of \<^verbatim>\<open>cluster.on("online")\<close> as the static \<^verbatim>\<open>on\<close> wraps them: around a
  user function, or around the module's own
  \<^verbatim>\<open>worker => worker.on("----get-workers----", ...)\<close>.\<close>

datatype online_listener = OnlineFn fn | GetWorkersHook

text \<open>Listeners the module registers on \<^verbatim>\<open>process\<close> in a worker.\<close>

datatype closure =
    Direct listener
  | Dispatcher
  | OnlineBootstrap fn
  | ExitGate fn
  | OnlineWait fn

datatype call =
    OnlineCall fn "ref option"
  | ExitCall fn "ref option" "int option" "string option"
  | WorkersCall fn "ref list"
  | WorkerCall fn ref

datatype ret = Undefined | Bool bool | This ref | Class | Resolved "ref list" | Rejected error

datatype outcome = Returned ret | Threw error | Terminated

record worker =
  id' :: wid
  keepAlive :: bool
  state :: wstate
  receivers :: "wid list option"
  events :: "(string \<times> listener \<times> bool) list"

record pidrec =
  rid :: wid
  rkeepAlive :: bool
  reborn :: bool

text \<open>The variables \<^verbatim>\<open>target\<close>, \<^verbatim>\<open>id\<close>, \<^verbatim>\<open>keepAlive\<close> that the handlers installed by
  \<^verbatim>\<open>createWorker\<close> close over.\<close>

record child =
  target :: ref
  cid :: wid
  ckeepAlive :: bool

record proc =
  isMaster :: bool
  heap :: "worker list"
  Workers :: "(wid \<times> ref) list"
  ClusterWorkers :: "(wid \<times> pid) list"
  WorkerPids :: "pid \<rightharpoonup> pidrec"
  Worker_receivers :: "wid list option"
  forked :: "pid \<rightharpoonup> child"
  cluster_message :: "(ref \<times> string \<times> listener \<times> bool) list"
  cluster_online :: "online_listener list"
  cluster_exit :: "fn list"
  process_on :: "(string \<times> closure \<times> bool) list"
  sent :: "(pid \<times> message) list"
  killed :: "pid list"
  process_sent :: "message list"
  process_emitted :: "(string \<times> val list) list"
  exited :: "int option option"
  calls :: "call list"

text \<open>The state after the module is loaded: in the master the module has registered its
  own \<^verbatim>\<open>online\<close> listener, in a worker its \<^verbatim>\<open>message\<close> listener.\<close>

definition init :: "bool \<Rightarrow> proc" where
  "init master =
     \<lparr>isMaster = master, heap = [], Workers = [], ClusterWorkers = [],
      WorkerPids = Map.empty, Worker_receivers = None, forked = Map.empty,
      cluster_message = [],
      cluster_online = (if master then [GetWorkersHook] else []),
      cluster_exit = [],
      process_on = (if master then [] else [(''message'', Dispatcher, False)]),
      sent = [], killed = [], process_sent = [], process_emitted = [],
      exited = None, calls = []\<rparr>"

subsection \<open>Helpers\<close>

definition lookup :: "'a list \<Rightarrow> nat \<Rightarrow> 'a option" where
  "lookup xs i = (if i < length xs then Some (xs ! i) else None)"

definition modify :: "ref \<Rightarrow> (worker \<Rightarrow> worker) \<Rightarrow> proc \<Rightarrow> proc" where
  "modify a f s =
     (if a < length (heap s) then s\<lparr>heap := (heap s)[a := f (heap s ! a)]\<rparr> else s)"

definition send :: "pid \<Rightarrow> message \<Rightarrow> proc \<Rightarrow> proc" where
  "send p m s = s\<lparr>sent := sent s @ [(p, m)]\<rparr>"

definition process_send :: "message \<Rightarrow> proc \<Rightarrow> proc" where
  "process_send m s = s\<lparr>process_sent := process_sent s @ [m]\<rparr>"

text \<open>\<^verbatim>\<open>for (let id of receivers) if (ClusterWorkers[id]) ClusterWorkers[id].send(m)\<close>\<close>

fun send_each :: "wid list \<Rightarrow> message \<Rightarrow> proc \<Rightarrow> proc" where
  "send_each [] m s = s"
| "send_each (i # is) m s =
     (case map_of (ClusterWorkers s) i of
        Some p \<Rightarrow> send_each is m (send p m s)
      | None \<Rightarrow> send_each is m s)"

text \<open>\<^verbatim>\<open>for (let id in ClusterWorkers) ClusterWorkers[id].send(m)\<close>\<close>

fun send_all :: "pid list \<Rightarrow> message \<Rightarrow> proc \<Rightarrow> proc" where
  "send_all [] m s = s"
| "send_all (p # ps) m s = send_all ps m (send p m s)"

text \<open>Truthiness of an exit code: \<^verbatim>\<open>null\<close> and \<^verbatim>\<open>0\<close> are falsy.\<close>

definition truthy :: "int option \<Rightarrow> bool" where
  "truthy code = (case code of None \<Rightarrow> False | Some c \<Rightarrow> c \<noteq> 0)"

text \<open>The code of the \<^verbatim>\<open>exit\<close> event in the master for a child that called
  \<^verbatim>\<open>process.exit(code)\<close>: a POSIX exit status has 8 bits.\<close>

definition exit_status :: "int \<Rightarrow> int" where
  "exit_status code = code mod 256"

definition code_val :: "int option \<Rightarrow> val" where
  "code_val code = (case code of None \<Rightarrow> Null | Some c \<Rightarrow> Num c)"

definition signal_val :: "string option \<Rightarrow> val" where
  "signal_val signal = (case signal of None \<Rightarrow> Null | Some g \<Rightarrow> Str g)"

definition getValues :: "('k \<times> 'v) list \<Rightarrow> 'v list" where
  "getValues obj = map snd obj"

subsection \<open>The class \<^verbatim>\<open>Worker\<close>: instance methods\<close>

text \<open>\<^verbatim>\<open>createWorker(target, reborn)\<close>; \<open>p\<close> is the pid of the process that
  \<^verbatim>\<open>cluster.fork()\<close> starts. The three handlers it installs on the cluster worker are
  \<open>worker_online\<close>, \<open>worker_exit\<close> and \<open>worker_error\<close> below; \<open>forked\<close> holds their closure
  variables for every child whose \<^verbatim>\<open>exit\<close> has not been seen.\<close>

definition createWorker :: "ref \<Rightarrow> bool \<Rightarrow> pid \<Rightarrow> proc \<Rightarrow> proc" where
  "createWorker t rb p s =
     (case lookup (heap s) t of
        None \<Rightarrow> s
      | Some w \<Rightarrow>
          s\<lparr>Workers := AList.update (id' w) t (Workers s),
            ClusterWorkers := AList.update (id' w) p (ClusterWorkers s),
            WorkerPids := (WorkerPids s)(p \<mapsto> \<lparr>rid = id' w, rkeepAlive = keepAlive w, reborn = rb\<rparr>),
            forked := (forked s)(p \<mapsto> \<lparr>target = t, cid = id' w, ckeepAlive = keepAlive w\<rparr>)\<rparr>)"

text \<open>The constructor. \<^verbatim>\<open>Workers[id] === "closed"\<close> compares an object with a string and
  is false whenever \<^verbatim>\<open>Workers[id]\<close> is set.\<close>

definition new_Worker :: "wid \<Rightarrow> bool \<Rightarrow> pid \<Rightarrow> proc \<Rightarrow> ref \<times> proc" where
  "new_Worker i ka p s =
     (let this = length (heap s);
          s1 = s\<lparr>heap := heap s @
                 [\<lparr>id' = i, keepAlive = ka, state = Connecting, receivers = None, events = []\<rparr>]\<rparr>
      in if isMaster s1 \<and> (case map_of (Workers s1) i of None \<Rightarrow> True | Some h \<Rightarrow> False)
         then (this, createWorker this False p s1)
         else (this, s1))"

definition on :: "ref \<Rightarrow> string \<Rightarrow> listener \<Rightarrow> proc \<Rightarrow> outcome \<times> proc" where
  "on this event l s =
     (if isMaster s then
        (if event = ''error'' \<or> event = ''exit''
         then (Returned (This this), modify this (\<lambda>w. w\<lparr>events := events w @ [(event, l, False)]\<rparr>) s)
         else (Returned (This this), s\<lparr>cluster_message := cluster_message s @ [(this, event, l, False)]\<rparr>))
      else (Returned (This this), s\<lparr>process_on := process_on s @ [(event, Direct l, False)]\<rparr>))"

definition once :: "ref \<Rightarrow> string \<Rightarrow> listener \<Rightarrow> proc \<Rightarrow> outcome \<times> proc" where
  "once this event l s =
     (if isMaster s then
        (if event = ''error'' \<or> event = ''exit''
         then (Returned (This this), modify this (\<lambda>w. w\<lparr>events := events w @ [(event, l, True)]\<rparr>) s)
         else (Returned (This this), s\<lparr>cluster_message := cluster_message s @ [(this, event, l, True)]\<rparr>))
      else (Returned (This this), s\<lparr>process_on := process_on s @ [(event, Direct l, True)]\<rparr>))"

definition emit :: "ref \<Rightarrow> string \<Rightarrow> val list \<Rightarrow> proc \<Rightarrow> outcome \<times> proc" where
  "emit this event data s =
     (if event = ''online'' \<or> event = ''error'' \<or> event = ''exit'' then (Returned (Bool False), s)
      else case lookup (heap s) this of
        None \<Rightarrow> (Threw TypeError, s)
      | Some w \<Rightarrow>
          if isMaster s then
            (case receivers w of
               Some rs \<Rightarrow>
                 (Returned (Bool True),
                  modify this (\<lambda>w. w\<lparr>receivers := None\<rparr>)
                    (send_each rs (Message None event (Args data)) s))
             | None \<Rightarrow>
                 (case map_of (ClusterWorkers s) (id' w) of
                    Some p \<Rightarrow> (Returned (Bool True), send p (Message None event (Args data)) s)
                  | None \<Rightarrow> (Returned (Bool True), s)))
          else
            (case receivers w of
               Some rs \<Rightarrow>
                 (Returned (Bool True),
                  process_send
                    (Message (Some (id' w)) ''----transmit----'' (Wrapped (Some rs) event data)) s)
             | None \<Rightarrow>
                 (Returned (Bool True), process_send (Message (Some (id' w)) event (Args data)) s)))"

text \<open>The arguments of \<^verbatim>\<open>to\<close>: ids or Worker objects, given as rest arguments or as one
  array (arguments after a leading array are ignored by the source).\<close>

datatype dest = Id wid | Ref ref

datatype to_args = Rest "dest list" | Array "dest list"

definition dest_id :: "worker list \<Rightarrow> dest \<Rightarrow> wid" where
  "dest_id h d =
     (case d of
        Id i \<Rightarrow> i
      | Ref a \<Rightarrow> (case lookup h a of Some w \<Rightarrow> id' w | None \<Rightarrow> ''undefined''))"

definition to_ids :: "worker list \<Rightarrow> to_args \<Rightarrow> wid list" where
  "to_ids h args = (case args of Rest ds \<Rightarrow> map (dest_id h) ds | Array ds \<Rightarrow> map (dest_id h) ds)"

definition to :: "ref \<Rightarrow> to_args \<Rightarrow> proc \<Rightarrow> outcome \<times> proc" where
  "to this args s =
     (Returned (This this), modify this (\<lambda>w. w\<lparr>receivers := Some (to_ids (heap s) args)\<rparr>) s)"

definition broadcast :: "ref \<Rightarrow> string \<Rightarrow> val list \<Rightarrow> proc \<Rightarrow> outcome \<times> proc" where
  "broadcast this event data s =
     (if event = ''online'' \<or> event = ''error'' \<or> event = ''exit'' then (Returned (Bool False), s)
      else if isMaster s then
        (Returned (Bool True), send_all (map snd (ClusterWorkers s)) (Message None event (Args data)) s)
      else case lookup (heap s) this of
        None \<Rightarrow> (Threw TypeError, s)
      | Some w \<Rightarrow>
          (Returned (Bool True),
           process_send (Message (Some (id' w)) ''----broadcast----'' (Wrapped None event data)) s))"

definition exit :: "ref \<Rightarrow> proc \<Rightarrow> outcome \<times> proc" where
  "exit this s =
     (if isMaster s then
        (case lookup (heap s) this of
           None \<Rightarrow> (Threw TypeError, s)
         | Some w \<Rightarrow>
             (case map_of (ClusterWorkers s) (id' w) of
                None \<Rightarrow> (Threw TypeError, s)
              | Some p \<Rightarrow> (Returned Undefined, s\<lparr>killed := killed s @ [p]\<rparr>)))
      else (Terminated, s\<lparr>exited := Some None\<rparr>))"

definition reboot :: "ref \<Rightarrow> proc \<Rightarrow> outcome \<times> proc" where
  "reboot this s =
     (if isMaster s then
        (case lookup (heap s) this of
           None \<Rightarrow> (Threw TypeError, s)
         | Some w \<Rightarrow>
             (let s1 = modify this (\<lambda>w. w\<lparr>state := Closed\<rparr>) s
              in case map_of (ClusterWorkers s1) (id' w) of
                   None \<Rightarrow> (Threw TypeError, s1)
                 | Some p \<Rightarrow> (Returned Undefined, send p (Bare ''----reboot----'') s1)))
      else (Terminated, s\<lparr>exited := Some (Some 826)\<rparr>))"

subsection \<open>The class \<^verbatim>\<open>Worker\<close>: static methods\<close>

definition Worker_on :: "string \<Rightarrow> fn \<Rightarrow> proc \<Rightarrow> outcome \<times> proc" where
  "Worker_on event l s =
     (if isMaster s then
        (if event = ''online''
         then (Returned Class, s\<lparr>cluster_online := cluster_online s @ [OnlineFn l]\<rparr>)
         else if event = ''exit''
         then (Returned Class, s\<lparr>cluster_exit := cluster_exit s @ [l]\<rparr>)
         else (Returned Class, s))
      else
        (if event = ''online''
         then (Returned Class, s\<lparr>process_on := process_on s @ [(''message'', OnlineBootstrap l, False)]\<rparr>)
         else if event = ''exit''
         then (Returned Class, s\<lparr>process_on := process_on s @ [(''exit'', ExitGate l, False)]\<rparr>)
         else (Returned Class, s)))"

definition Worker_broadcast :: "string \<Rightarrow> val list \<Rightarrow> proc \<Rightarrow> outcome \<times> proc" where
  "Worker_broadcast event data s =
     (if event = ''online'' \<or> event = ''error'' \<or> event = ''exit'' then (Returned (Bool False), s)
      else if isMaster s then
        (Returned (Bool True), send_all (map snd (ClusterWorkers s)) (Message None event (Args data)) s)
      else (Threw ReferenceError, s))"

definition Worker_emit :: "string \<Rightarrow> val list \<Rightarrow> proc \<Rightarrow> outcome \<times> proc" where
  "Worker_emit event data s =
     (if event = ''online'' \<or> event = ''error'' \<or> event = ''exit'' then (Returned (Bool False), s)
      else if isMaster s then
        (case Worker_receivers s of
           None \<Rightarrow> Worker_broadcast event data s
         | Some rs \<Rightarrow>
             (Returned (Bool True),
              (send_each rs (Message None event (Args data)) s)\<lparr>Worker_receivers := None\<rparr>))
      else (Threw ReferenceError, s))"

definition Worker_to :: "to_args \<Rightarrow> proc \<Rightarrow> outcome \<times> proc" where
  "Worker_to args s =
     (if isMaster s then (Returned Class, s\<lparr>Worker_receivers := Some (to_ids (heap s) args)\<rparr>)
      else (Threw ReferenceError, s))"

text \<open>\<^verbatim>\<open>getWorkers(cb)\<close>: with a function, the callback is called at once with
  \<^verbatim>\<open>getValues(Workers)\<close>; without, the promise's executor makes the same call with
  \<^verbatim>\<open>resolve\<close>, and a throw inside the executor rejects the promise.\<close>

definition Worker_getWorkers :: "fn option \<Rightarrow> proc \<Rightarrow> outcome \<times> proc" where
  "Worker_getWorkers cb s =
     (case cb of
        Some f \<Rightarrow>
          (if isMaster s
           then (Returned Undefined, s\<lparr>calls := calls s @ [WorkersCall f (getValues (Workers s))]\<rparr>)
           else (Threw ReferenceError, s))
      | None \<Rightarrow>
          (if isMaster s then (Returned (Resolved (getValues (Workers s))), s)
           else (Returned (Rejected ReferenceError), s)))"

text \<open>\<^verbatim>\<open>getWorker(cb)\<close>; without a callback the executor calls the undefined
  \<^verbatim>\<open>this.getChannel\<close>, which rejects the promise with a TypeError.\<close>

definition Worker_getWorker :: "fn option \<Rightarrow> proc \<Rightarrow> outcome \<times> proc" where
  "Worker_getWorker cb s =
     (if isMaster s then (Threw Error, s)
      else case cb of
        Some f \<Rightarrow>
          (case getValues (Workers s) of
             a # _ \<Rightarrow> (Returned Undefined, s\<lparr>calls := calls s @ [WorkerCall f a]\<rparr>)
           | [] \<Rightarrow>
               (Returned Undefined,
                s\<lparr>process_on := process_on s @ [(''----online----'', OnlineWait f, True)]\<rparr>))
      | None \<Rightarrow> (Returned (Rejected TypeError), s))"

subsection \<open>Handlers of child events (master)\<close>

text \<open>The listener that the static \<^verbatim>\<open>on("online", listener)\<close> puts on \<^verbatim>\<open>cluster\<close>:
  it reads \<^verbatim>\<open>WorkerPids[pid]\<close> and skips reborn workers.\<close>

definition online_gate :: "online_listener \<Rightarrow> pid \<Rightarrow> proc \<Rightarrow> outcome \<times> proc" where
  "online_gate l p s =
     (case WorkerPids s p of
        None \<Rightarrow> (Threw TypeError, s)
      | Some r \<Rightarrow>
          if \<not> reborn r then
            (case l of
               OnlineFn f \<Rightarrow>
                 (Returned Undefined, s\<lparr>calls := calls s @ [OnlineCall f (map_of (Workers s) (rid r))]\<rparr>)
             | GetWorkersHook \<Rightarrow>
                 (case map_of (Workers s) (rid r) of
                    None \<Rightarrow> (Threw TypeError, s)
                  | Some a \<Rightarrow>
                      (Returned Undefined,
                       snd (on a ''----get-workers----'' (GetWorkersResponder a) s))))
          else (Returned Undefined, s))"

fun cluster_emit_online :: "online_listener list \<Rightarrow> pid \<Rightarrow> proc \<Rightarrow> outcome \<times> proc" where
  "cluster_emit_online [] p s = (Returned Undefined, s)"
| "cluster_emit_online (l # ls) p s =
     (case online_gate l p s of
        (Returned r, s') \<Rightarrow> cluster_emit_online ls p s'
      | (out, s') \<Rightarrow> (out, s'))"

text \<open>The listener that the static \<^verbatim>\<open>on("exit", listener)\<close> puts on \<^verbatim>\<open>cluster\<close>:
  \<^verbatim>\<open>if (!code || (code && !keepAlive)) listener(Workers[id], code, signal)\<close>.\<close>

definition exit_gate :: "fn \<Rightarrow> pid \<Rightarrow> int option \<Rightarrow> string option \<Rightarrow> proc \<Rightarrow> outcome \<times> proc" where
  "exit_gate f p code signal s =
     (case WorkerPids s p of
        None \<Rightarrow> (Threw TypeError, s)
      | Some r \<Rightarrow>
          if \<not> truthy code \<or> (truthy code \<and> \<not> rkeepAlive r)
          then (Returned Undefined,
                s\<lparr>calls := calls s @ [ExitCall f (map_of (Workers s) (rid r)) code signal]\<rparr>)
          else (Returned Undefined, s))"

fun cluster_emit_exit :: "fn list \<Rightarrow> pid \<Rightarrow> int option \<Rightarrow> string option \<Rightarrow> proc \<Rightarrow> outcome \<times> proc" where
  "cluster_emit_exit [] p code signal s = (Returned Undefined, s)"
| "cluster_emit_exit (f # fs) p code signal s =
     (case exit_gate f p code signal s of
        (Returned r, s') \<Rightarrow> cluster_emit_exit fs p code signal s'
      | (out, s') \<Rightarrow> (out, s'))"

text \<open>Child \<open>p\<close> comes online: the handler of \<^verbatim>\<open>createWorker\<close>, then the listeners on
  \<^verbatim>\<open>cluster\<close>.\<close>

definition serialise :: "worker list \<Rightarrow> ref \<Rightarrow> val" where
  "serialise h a =
     (case lookup h a of None \<Rightarrow> Null | Some w \<Rightarrow> WorkerObj (id' w) (keepAlive w) (state w))"

definition online_handler :: "child \<Rightarrow> pid \<Rightarrow> proc \<Rightarrow> proc" where
  "online_handler c p s =
     (let s1 = modify (target c) (\<lambda>w. w\<lparr>state := Online\<rparr>) s
      in send p (Message None ''online'' (Args [serialise (heap s1) (target c)])) s1)"

definition worker_online :: "pid \<Rightarrow> proc \<Rightarrow> outcome \<times> proc" where
  "worker_online p s =
     (case forked s p of
        None \<Rightarrow> (Returned Undefined, s)
      | Some c \<Rightarrow>
          (let s1 = online_handler c p s in cluster_emit_online (cluster_online s1) p s1))"

text \<open>Child \<open>p\<close> exits with \<open>code\<close> and \<open>signal\<close>: the handler of \<^verbatim>\<open>createWorker\<close>
  (\<open>q\<close> is the pid of the child it forks when it respawns), then the listeners on
  \<^verbatim>\<open>cluster\<close>.\<close>

definition exit_handler :: "child \<Rightarrow> int option \<Rightarrow> string option \<Rightarrow> pid \<Rightarrow> proc \<Rightarrow> proc" where
  "exit_handler c code signal q s =
     (if (truthy code \<or> signal = Some ''SIGKILL'') \<and> ckeepAlive c \<or> code = Some 826
      then createWorker (target c) True q s
      else
        (let s1 = modify (target c) (\<lambda>w. w\<lparr>state := Closed\<rparr>) s;
             s2 = snd (emit (target c) ''exit'' [code_val code, signal_val signal] s1)
         in s2\<lparr>Workers := AList.delete (cid c) (Workers s2),
               ClusterWorkers := AList.delete (cid c) (ClusterWorkers s2)\<rparr>))"

definition worker_exit :: "pid \<Rightarrow> int option \<Rightarrow> string option \<Rightarrow> pid \<Rightarrow> proc \<Rightarrow> outcome \<times> proc" where
  "worker_exit p code signal q s =
     (case forked s p of
        None \<Rightarrow> (Returned Undefined, s)
      | Some c \<Rightarrow>
          (let s1 = exit_handler c code signal q (s\<lparr>forked := (forked s)(p := None)\<rparr>)
           in cluster_emit_exit (cluster_exit s1) p code signal s1))"

definition worker_error :: "pid \<Rightarrow> val \<Rightarrow> proc \<Rightarrow> outcome \<times> proc" where
  "worker_error p err s =
     (case forked s p of
        None \<Rightarrow> (Returned Undefined, s)
      | Some c \<Rightarrow> (Returned Undefined, snd (emit (target c) ''error'' [err] s)))"

subsection \<open>The message listener of a worker process\<close>

text \<open>
  \<^verbatim>\<open>if (msg && msg.event) process.emit(msg.event, ...msg.data);
  else if (msg === "----reboot----") process.exit(826);\<close>
  It is installed in worker processes only. Spreading a wrapper object throws.
\<close>

definition process_message :: "message \<Rightarrow> proc \<Rightarrow> outcome \<times> proc" where
  "process_message msg s =
     (if isMaster s then (Returned Undefined, s)
      else case msg of
        Message i event d \<Rightarrow>
          (if event \<noteq> [] then
             (case d of
                Args xs \<Rightarrow>
                  (Returned Undefined, s\<lparr>process_emitted := process_emitted s @ [(event, xs)]\<rparr>)
              | Wrapped rs e xs \<Rightarrow> (Threw TypeError, s))
           else (Returned Undefined, s))
      | Bare str \<Rightarrow>
          (if str = ''----reboot----'' then (Terminated, s\<lparr>exited := Some (Some 826)\<rparr>)
           else (Returned Undefined, s)))"

subsection \<open>Executions\<close>

text \<open>What can happen to a process: a call of the API by user code, or an event of a
  child (master) or a message from the master (worker). The pid in \<open>New\<close> and the second
  pid in \<open>ChildExit\<close> are the pids that \<^verbatim>\<open>cluster.fork()\<close> hands out if the action
  forks; the operating system never hands out the pid of a live child.\<close>

datatype action =
    New wid bool pid
  | On ref string fn
  | Once ref string fn
  | Emit ref string "val list"
  | To ref to_args
  | Broadcast ref string "val list"
  | Exit ref
  | Reboot ref
  | StaticOn string fn
  | StaticEmit string "val list"
  | StaticTo to_args
  | StaticBroadcast string "val list"
  | GetWorkers "fn option"
  | GetWorker "fn option"
  | ChildOnline pid
  | ChildExit pid "int option" "string option" pid
  | ChildError pid val
  | Receive message

fun step :: "action \<Rightarrow> proc \<Rightarrow> proc" where
  "step (New i ka p) s = snd (new_Worker i ka p s)"
| "step (On a e f) s = snd (on a e (Fn f) s)"
| "step (Once a e f) s = snd (once a e (Fn f) s)"
| "step (Emit a e d) s = snd (emit a e d s)"
| "step (To a args) s = snd (to a args s)"
| "step (Broadcast a e d) s = snd (broadcast a e d s)"
| "step (Exit a) s = snd (exit a s)"
| "step (Reboot a) s = snd (reboot a s)"
| "step (StaticOn e f) s = snd (Worker_on e f s)"
| "step (StaticEmit e d) s = snd (Worker_emit e d s)"
| "step (StaticTo args) s = snd (Worker_to args s)"
| "step (StaticBroadcast e d) s = snd (Worker_broadcast e d s)"
| "step (GetWorkers cb) s = snd (Worker_getWorkers cb s)"
| "step (GetWorker cb) s = snd (Worker_getWorker cb s)"
| "step (ChildOnline p) s = snd (worker_online p s)"
| "step (ChildExit p code signal q) s = snd (worker_exit p code signal q s)"
| "step (ChildError p err) s = snd (worker_error p err s)"
| "step (Receive m) s = snd (process_message m s)"

fun enabled :: "action \<Rightarrow> proc \<Rightarrow> bool" where
  "enabled (New i ka p) s = (forked s p = None)"
| "enabled (ChildExit p code signal q) s = (forked s p \<noteq> None \<and> (forked s q = None \<or> q = p))"
| "enabled (ChildOnline p) s = (forked s p \<noteq> None)"
| "enabled (ChildError p err) s = (forked s p \<noteq> None)"
| "enabled a s = True"

inductive reachable :: "proc \<Rightarrow> bool" where
  reach_init: "reachable (init master)"
| reach_step: "reachable s \<Longrightarrow> enabled a s \<Longrightarrow> reachable (step a s)"

text \<open>The registries agree with the live children: the closure variables of a live
  child are those of its registered handle, its channel and its pid record, and every
  channel belongs to a live child.\<close>

definition consistent :: "proc \<Rightarrow> bool" where
  "consistent s \<longleftrightarrow>
     (\<forall>p c. forked s p = Some c \<longrightarrow>
        map_of (ClusterWorkers s) (cid c) = Some p \<and>
        map_of (Workers s) (cid c) = Some (target c) \<and>
        (\<exists>r. WorkerPids s p = Some r \<and> rid r = cid c \<and> rkeepAlive r = ckeepAlive c) \<and>
        target c < length (heap s) \<and>
        id' (heap s ! target c) = cid c \<and>
        keepAlive (heap s ! target c) = ckeepAlive c) \<and>
     (\<forall>i p. map_of (ClusterWorkers s) i = Some p \<longrightarrow> (\<exists>c. forked s p = Some c \<and> cid c = i))"

text \<open>An action that leaves the registries, the live children and the identity of every
  object as they are.\<close>

definition frame :: "proc \<Rightarrow> proc \<Rightarrow> bool" where
  "frame s s' \<longleftrightarrow>
     isMaster s' = isMaster s \<and> forked s' = forked s \<and> Workers s' = Workers s \<and>
     ClusterWorkers s' = ClusterWorkers s \<and> WorkerPids s' = WorkerPids s \<and>
     length (heap s) \<le> length (heap s') \<and>
     (\<forall>a < length (heap s). id' (heap s' ! a) = id' (heap s ! a) \<and>
                             keepAlive (heap s' ! a) = keepAlive (heap s ! a))"

subsection \<open>Concrete executions\<close>

text \<open>A worker process in which user code has built a handle for id \<open>a\<close>.\<close>

definition worker_a :: proc where
  "worker_a = step (New ''a'' False 0) (init False)"

text \<open>The same process after \<^verbatim>\<open>handle.to("b").emit("ping", 42)\<close>.\<close>

definition worker_a_pinged :: proc where
  "worker_a_pinged = step (Emit 0 ''ping'' [Num 42]) (step (To 0 (Rest [Id ''b''])) worker_a)"

text \<open>A master that has just run \<^verbatim>\<open>new Worker("a")\<close>; the child has pid 1 and is not
  online yet.\<close>

definition master_a_connecting :: proc where
  "master_a_connecting = step (New ''a'' False 1) (init True)"

text \<open>A master with the keep-alive worker \<open>b\<close> online, a listener for \<^verbatim>\<open>exit\<close> and one
  for \<^verbatim>\<open>hello\<close> on its handle, and user listeners for the static \<^verbatim>\<open>online\<close> and
  \<^verbatim>\<open>exit\<close>.\<close>

definition master_b :: proc where
  "master_b =
     step (ChildOnline 1)
       (step (On 0 ''hello'' 6)
         (step (On 0 ''exit'' 5)
           (step (New ''b'' True 1)
             (step (StaticOn ''exit'' 8)
               (step (StaticOn ''online'' 7) (init True))))))"

text \<open>A master with the worker \<open>a\<close> (no keep-alive) online and a user listener for the
  static \<^verbatim>\<open>exit\<close>.\<close>

definition master_a :: proc where
  "master_a =
     step (ChildOnline 1) (step (New ''a'' False 1) (step (StaticOn ''exit'' 7) (init True)))"

text \<open>\<^verbatim>\<open>reboot()\<close> on that worker, and the exit of its child, which has called
  \<^verbatim>\<open>process.exit(826)\<close>; a respawn would fork the child with pid 2.\<close>

definition master_a_rebooted :: proc where
  "master_a_rebooted =
     step (ChildExit 1 (Some (exit_status 826)) None 2) (step (Reboot 0) master_a)"

text \<open>A master in which \<^verbatim>\<open>h = new Worker("a")\<close>, \<^verbatim>\<open>h.on("exit", f)\<close>, the child coming
  online, \<^verbatim>\<open>h.exit()\<close> and the child's exit on \<^verbatim>\<open>SIGTERM\<close> have happened in that
  order.\<close>

definition master_a_exited :: proc where
  "master_a_exited =
     step (ChildExit 1 None (Some ''SIGTERM'') 2)
       (step (Exit 0)
         (step (ChildOnline 1)
           (step (On 0 ''exit'' 7) (step (New ''a'' False 1) (init True)))))"

section \<open>Properties\<close>

subsection \<open>Actions that leave the registries alone\<close>

lemma frame_refl: "frame s s"
  by (simp add: frame_def)

lemma frame_trans: "frame s t \<Longrightarrow> frame t u \<Longrightarrow> frame s u"
  by (auto simp: frame_def)

lemma frame_modify:
  assumes "\<And>w. id' (f w) = id' w" and "\<And>w. keepAlive (f w) = keepAlive w"
  shows "frame s (modify a f s)"
  using assms by (simp add: frame_def modify_def nth_list_update)

lemma frame_send: "frame s (send p m s)"
  by (simp add: frame_def send_def)

lemma frame_send_each: "frame s (send_each rs m s)"
proof (induction rs arbitrary: s)
  case Nil
  show ?case by (simp add: frame_refl)
next
  case (Cons i rs)
  show ?case
  proof (cases "map_of (ClusterWorkers s) i")
    case None
    then show ?thesis using Cons.IH [of s] by simp
  next
    case (Some p)
    then show ?thesis
      using frame_trans [OF frame_send Cons.IH [of "send p m s"]] by simp
  qed
qed

lemma frame_send_all: "frame s (send_all ps m s)"
proof (induction ps arbitrary: s)
  case Nil
  show ?case by (simp add: frame_refl)
next
  case (Cons p ps)
  show ?case using frame_trans [OF frame_send Cons.IH [of "send p m s"]] by simp
qed

lemma frame_on: "frame s (snd (on a e l s))"
  by (simp add: on_def frame_modify) (simp add: frame_def)

lemma frame_once: "frame s (snd (once a e l s))"
  by (simp add: once_def frame_modify) (simp add: frame_def)

lemma frame_emit: "frame s (snd (emit a e d s))"
proof -
  have m: "\<And>t. frame s t \<Longrightarrow> frame s (modify a (\<lambda>w. w\<lparr>receivers := None\<rparr>) t)"
    by (rule frame_trans, assumption, rule frame_modify) simp_all
  have p: "\<And>x. frame s (process_send x s)"
    by (simp add: frame_def process_send_def)
  show ?thesis
    by (simp add: emit_def frame_refl frame_send m frame_send_each p split: option.splits)
qed

lemma frame_to: "frame s (snd (to a args s))"
  by (simp add: to_def frame_modify)

lemma frame_broadcast: "frame s (snd (broadcast a e d s))"
  by (simp add: broadcast_def frame_refl frame_send_all split: option.splits)
     (simp add: frame_def process_send_def)

lemma frame_exit: "frame s (snd (exit a s))"
  by (simp add: exit_def frame_refl split: option.splits) (simp add: frame_def)

lemma frame_reboot: "frame s (snd (reboot a s))"
proof -
  have m: "frame s (modify a (\<lambda>w. w\<lparr>state := Closed\<rparr>) s)"
    by (rule frame_modify) simp_all
  have "frame s (send p x (modify a (\<lambda>w. w\<lparr>state := Closed\<rparr>) s))" for p x
    by (rule frame_trans [OF m frame_send])
  then show ?thesis
    by (simp add: reboot_def Let_def frame_refl m split: option.splits) (simp add: frame_def)
qed

lemma frame_Worker_on: "frame s (snd (Worker_on e f s))"
  by (simp add: Worker_on_def frame_def)

lemma frame_Worker_broadcast: "frame s (snd (Worker_broadcast e d s))"
  by (simp add: Worker_broadcast_def frame_refl frame_send_all)

lemma frame_Worker_emit: "frame s (snd (Worker_emit e d s))"
proof -
  have "frame s ((send_each rs m s)\<lparr>Worker_receivers := None\<rparr>)" for rs m
    using frame_send_each [of s rs m] by (simp add: frame_def)
  then show ?thesis
    by (simp add: Worker_emit_def frame_refl frame_Worker_broadcast split: option.splits)
qed

lemma frame_Worker_to: "frame s (snd (Worker_to args s))"
  by (simp add: Worker_to_def frame_def)

lemma frame_Worker_getWorkers: "frame s (snd (Worker_getWorkers cb s))"
  by (simp add: Worker_getWorkers_def frame_def split: option.splits)

lemma frame_Worker_getWorker: "frame s (snd (Worker_getWorker cb s))"
  by (simp add: Worker_getWorker_def frame_def split: option.splits list.splits)

lemma frame_process_message: "frame s (snd (process_message m s))"
  by (simp add: process_message_def frame_def split: message.splits payload.splits)

lemma frame_worker_error: "frame s (snd (worker_error p err s))"
  by (simp add: worker_error_def frame_refl frame_emit split: option.splits)

lemma frame_online_gate: "frame s (snd (online_gate l p s))"
  by (simp add: online_gate_def frame_refl frame_on split: option.splits online_listener.splits)
     (simp add: frame_def)

lemma frame_cluster_emit_online: "frame s (snd (cluster_emit_online ls p s))"
proof (induction ls arbitrary: s)
  case Nil
  show ?case by (simp add: frame_refl)
next
  case (Cons l ls)
  obtain out t where g: "online_gate l p s = (out, t)" by (cases "online_gate l p s")
  have ft: "frame s t" using frame_online_gate [of s l p] g by simp
  show ?case
  proof (cases out)
    case (Returned r)
    then show ?thesis
      using g frame_trans [OF ft Cons.IH [of t]] by simp
  next
    case (Threw e)
    then show ?thesis using g ft by simp
  next
    case Terminated
    then show ?thesis using g ft by simp
  qed
qed

lemma frame_exit_gate: "frame s (snd (exit_gate f p code signal s))"
  by (simp add: exit_gate_def frame_refl split: option.splits) (simp add: frame_def)

lemma frame_cluster_emit_exit: "frame s (snd (cluster_emit_exit fs p code signal s))"
proof (induction fs arbitrary: s)
  case Nil
  show ?case by (simp add: frame_refl)
next
  case (Cons f fs)
  obtain out t where g: "exit_gate f p code signal s = (out, t)"
    by (cases "exit_gate f p code signal s")
  have ft: "frame s t" using frame_exit_gate [of s f p code signal] g by simp
  show ?case
  proof (cases out)
    case (Returned r)
    then show ?thesis
      using g frame_trans [OF ft Cons.IH [of t]] by simp
  next
    case (Threw e)
    then show ?thesis using g ft by simp
  next
    case Terminated
    then show ?thesis using g ft by simp
  qed
qed

lemma consistent_frame:
  assumes c: "consistent s" and f: "frame s t"
  shows "consistent t"
  unfolding consistent_def
proof (intro conjI allI impI)
  fix p c
  assume "forked t p = Some c"
  then have live: "forked s p = Some c" using f by (simp add: frame_def)
  have 1: "map_of (ClusterWorkers s) (cid c) = Some p"
    and 2: "map_of (Workers s) (cid c) = Some (target c)"
    and 3: "\<exists>r. WorkerPids s p = Some r \<and> rid r = cid c \<and> rkeepAlive r = ckeepAlive c"
    and 4: "target c < length (heap s)"
    and 5: "id' (heap s ! target c) = cid c"
    and 6: "keepAlive (heap s ! target c) = ckeepAlive c"
    using c live unfolding consistent_def by blast+
  show "map_of (ClusterWorkers t) (cid c) = Some p" using 1 f by (simp add: frame_def)
  show "map_of (Workers t) (cid c) = Some (target c)" using 2 f by (simp add: frame_def)
  show "\<exists>r. WorkerPids t p = Some r \<and> rid r = cid c \<and> rkeepAlive r = ckeepAlive c"
    using 3 f by (simp add: frame_def)
  show "target c < length (heap t)" using 4 f by (simp add: frame_def)
  show "id' (heap t ! target c) = cid c" using 4 5 f by (simp add: frame_def)
  show "keepAlive (heap t ! target c) = ckeepAlive c" using 4 6 f by (simp add: frame_def)
next
  fix i p
  assume "map_of (ClusterWorkers t) i = Some p"
  then have "map_of (ClusterWorkers s) i = Some p" using f by (simp add: frame_def)
  then have "\<exists>c. forked s p = Some c \<and> cid c = i"
    using c unfolding consistent_def by blast
  then show "\<exists>c. forked t p = Some c \<and> cid c = i" using f by (simp add: frame_def)
qed


lemma consistent_init: "consistent (init master)"
  by (simp add: consistent_def init_def)

lemma consistent_unique:
  assumes "consistent s" and "forked s p = Some c" and "forked s q = Some d" and "cid c = cid d"
  shows "p = q"
proof -
  have "map_of (ClusterWorkers s) (cid c) = Some p" "map_of (ClusterWorkers s) (cid d) = Some q"
    using assms unfolding consistent_def by blast+
  then show ?thesis using assms(4) by simp
qed

lemma createWorker_consistent:
  assumes A: "\<And>p c. forked s p = Some c \<Longrightarrow>
        map_of (ClusterWorkers s) (cid c) = Some p \<and>
        map_of (Workers s) (cid c) = Some (target c) \<and>
        (\<exists>r. WorkerPids s p = Some r \<and> rid r = cid c \<and> rkeepAlive r = ckeepAlive c) \<and>
        target c < length (heap s) \<and>
        id' (heap s ! target c) = cid c \<and>
        keepAlive (heap s ! target c) = ckeepAlive c"
    and B: "\<And>i p. map_of (ClusterWorkers s) i = Some p \<Longrightarrow> i \<noteq> id' (heap s ! t) \<Longrightarrow>
        \<exists>c. forked s p = Some c \<and> cid c = i"
    and t: "t < length (heap s)"
    and q: "forked s q = None"
    and k: "\<And>p c. forked s p = Some c \<Longrightarrow> cid c \<noteq> id' (heap s ! t)"
  shows "consistent (createWorker t rb q s)"
proof -
  let ?w = "heap s ! t"
  let ?s = "createWorker t rb q s"
  have cw: "?s = s\<lparr>Workers := AList.update (id' ?w) t (Workers s),
            ClusterWorkers := AList.update (id' ?w) q (ClusterWorkers s),
            WorkerPids := (WorkerPids s)(q \<mapsto> \<lparr>rid = id' ?w, rkeepAlive = keepAlive ?w, reborn = rb\<rparr>),
            forked := (forked s)(q \<mapsto> \<lparr>target = t, cid = id' ?w, ckeepAlive = keepAlive ?w\<rparr>)\<rparr>"
    using t by (simp add: createWorker_def lookup_def)
  show ?thesis
    unfolding consistent_def
  proof (intro conjI allI impI)
    fix p c
    assume live: "forked ?s p = Some c"
    show "map_of (ClusterWorkers ?s) (cid c) = Some p"
      using live A [of p c] k [of p c] q
      by (cases "p = q") (auto simp: cw update_conv')
    show "map_of (Workers ?s) (cid c) = Some (target c)"
      using live A [of p c] k [of p c] q
      by (cases "p = q") (auto simp: cw update_conv')
    show "\<exists>r. WorkerPids ?s p = Some r \<and> rid r = cid c \<and> rkeepAlive r = ckeepAlive c"
      using live A [of p c] q
      by (cases "p = q") (auto simp: cw)
    show "target c < length (heap ?s)"
      using live A [of p c] t
      by (cases "p = q") (auto simp: cw)
    show "id' (heap ?s ! target c) = cid c"
      using live A [of p c] t
      by (cases "p = q") (auto simp: cw)
    show "keepAlive (heap ?s ! target c) = ckeepAlive c"
      using live A [of p c] t
      by (cases "p = q") (auto simp: cw)
  next
    fix i p
    assume ch: "map_of (ClusterWorkers ?s) i = Some p"
    show "\<exists>c. forked ?s p = Some c \<and> cid c = i"
    proof (cases "i = id' ?w")
      case True
      then have "p = q" using ch by (simp add: cw update_conv')
      then show ?thesis using True by (simp add: cw)
    next
      case False
      then have "map_of (ClusterWorkers s) i = Some p" using ch by (simp add: cw update_conv')
      then obtain c where c: "forked s p = Some c" "cid c = i" using B False by blast
      then have "p \<noteq> q" using q by auto
      then show ?thesis using c by (simp add: cw)
    qed
  qed
qed

lemma consistent_new_Worker:
  assumes c: "consistent s" and q: "forked s q = None"
  shows "consistent (snd (new_Worker i ka q s))"
proof -
  let ?w = "\<lparr>id' = i, keepAlive = ka, state = Connecting, receivers = None, events = []\<rparr>"
  let ?s1 = "s\<lparr>heap := heap s @ [?w]\<rparr>"
  have f: "frame s ?s1" by (simp add: frame_def nth_append)
  have c1: "consistent ?s1" by (rule consistent_frame [OF c f])
  show ?thesis
  proof (cases "isMaster s \<and> map_of (Workers s) i = None")
    case False
    then show ?thesis using c1 by (auto simp: new_Worker_def Let_def split: option.splits)
  next
    case True
    have "consistent (createWorker (length (heap s)) False q ?s1)"
    proof (rule createWorker_consistent)
      fix p c
      assume "forked ?s1 p = Some c"
      then show "map_of (ClusterWorkers ?s1) (cid c) = Some p \<and>
        map_of (Workers ?s1) (cid c) = Some (target c) \<and>
        (\<exists>r. WorkerPids ?s1 p = Some r \<and> rid r = cid c \<and> rkeepAlive r = ckeepAlive c) \<and>
        target c < length (heap ?s1) \<and>
        id' (heap ?s1 ! target c) = cid c \<and>
        keepAlive (heap ?s1 ! target c) = ckeepAlive c"
        using c1 unfolding consistent_def by blast
    next
      fix j p
      assume "map_of (ClusterWorkers ?s1) j = Some p"
      then show "\<exists>c. forked ?s1 p = Some c \<and> cid c = j"
        using c1 unfolding consistent_def by blast
    next
      show "length (heap s) < length (heap ?s1)" by simp
    next
      show "forked ?s1 q = None" using q by simp
    next
      fix p c
      assume "forked ?s1 p = Some c"
      then have "map_of (Workers s) (cid c) = Some (target c)"
        using c unfolding consistent_def by simp
      then show "cid c \<noteq> id' (heap ?s1 ! length (heap s))" using True by auto
    qed
    then show ?thesis using True by (simp add: new_Worker_def Let_def)
  qed
qed


lemma frame_worker_online: "frame s (snd (worker_online p s))"
proof (cases "forked s p")
  case None
  then show ?thesis by (simp add: worker_online_def frame_refl)
next
  case (Some c)
  have m: "frame s (modify (target c) (\<lambda>w. w\<lparr>state := Online\<rparr>) s)"
    by (rule frame_modify) simp_all
  have h: "frame s (online_handler c p s)"
    unfolding online_handler_def Let_def by (rule frame_trans [OF m frame_send])
  show ?thesis
    using Some frame_trans [OF h frame_cluster_emit_online]
    by (simp add: worker_online_def Let_def)
qed

lemma consistent_exit_handler:
  assumes c: "consistent s" and live: "forked s p = Some c" and q: "forked s q = None \<or> q = p"
  shows "consistent (exit_handler c code signal q (s\<lparr>forked := (forked s)(p := None)\<rparr>))"
proof -
  let ?s0 = "s\<lparr>forked := (forked s)(p := None)\<rparr>"
  have pc: "map_of (ClusterWorkers s) (cid c) = Some p"
    and tc: "target c < length (heap s)"
    and ic: "id' (heap s ! target c) = cid c"
    using c live unfolding consistent_def by blast+
  have A: "map_of (ClusterWorkers s) (cid d) = Some p' \<and>
        map_of (Workers s) (cid d) = Some (target d) \<and>
        (\<exists>r. WorkerPids s p' = Some r \<and> rid r = cid d \<and> rkeepAlive r = ckeepAlive d) \<and>
        target d < length (heap s) \<and>
        id' (heap s ! target d) = cid d \<and>
        keepAlive (heap s ! target d) = ckeepAlive d" if "forked s p' = Some d" for p' d
    using c that unfolding consistent_def by blast
  have B: "\<exists>d. forked s p' = Some d \<and> cid d = i" if "map_of (ClusterWorkers s) i = Some p'" for i p'
    using c that unfolding consistent_def by blast
  have other: "cid d \<noteq> cid c" if "forked ?s0 p' = Some d" for p' d
  proof
    assume e: "cid d = cid c"
    from that have "p' \<noteq> p" "forked s p' = Some d" by (auto split: if_splits)
    then show False using consistent_unique [OF c _ live e] by blast
  qed
  show ?thesis
  proof (cases "(truthy code \<or> signal = Some ''SIGKILL'') \<and> ckeepAlive c \<or> code = Some 826")
    case True
    have "consistent (createWorker (target c) True q ?s0)"
    proof (rule createWorker_consistent)
      fix p' d
      assume "forked ?s0 p' = Some d"
      then have "forked s p' = Some d" by (auto split: if_splits)
      then show "map_of (ClusterWorkers ?s0) (cid d) = Some p' \<and>
        map_of (Workers ?s0) (cid d) = Some (target d) \<and>
        (\<exists>r. WorkerPids ?s0 p' = Some r \<and> rid r = cid d \<and> rkeepAlive r = ckeepAlive d) \<and>
        target d < length (heap ?s0) \<and>
        id' (heap ?s0 ! target d) = cid d \<and>
        keepAlive (heap ?s0 ! target d) = ckeepAlive d"
        using A [of p' d] by simp
    next
      fix i p'
      assume ch: "map_of (ClusterWorkers ?s0) i = Some p'" and ne: "i \<noteq> id' (heap ?s0 ! target c)"
      then obtain d where d: "forked s p' = Some d" "cid d = i" using B [of i p'] by auto
      have "p' \<noteq> p" using d live ne ic by auto
      then show "\<exists>d. forked ?s0 p' = Some d \<and> cid d = i" using d by simp
    next
      show "target c < length (heap ?s0)" using tc by simp
    next
      show "forked ?s0 q = None" using q by auto
    next
      fix p' d
      assume "forked ?s0 p' = Some d"
      then show "cid d \<noteq> id' (heap ?s0 ! target c)" using other [of p' d] ic by simp
    qed
    then show ?thesis using True by (simp add: exit_handler_def)
  next
    case False
    let ?s1 = "modify (target c) (\<lambda>w. w\<lparr>state := Closed\<rparr>) ?s0"
    let ?t = "?s1\<lparr>Workers := AList.delete (cid c) (Workers ?s1),
                   ClusterWorkers := AList.delete (cid c) (ClusterWorkers ?s1)\<rparr>"
    have eh: "exit_handler c code signal q ?s0 = ?t"
      using False by (auto simp: exit_handler_def emit_def Let_def)
    have f: "frame ?s0 ?s1" by (rule frame_modify) simp_all
    have "consistent ?t"
      unfolding consistent_def
    proof (intro conjI allI impI)
      fix p' d
      assume l: "forked ?t p' = Some d"
      then have l0: "forked ?s0 p' = Some d" using f by (simp add: frame_def)
      then have ls: "forked s p' = Some d" by (auto split: if_splits)
      have ne: "cid d \<noteq> cid c" using other [OF l0] .
      note a = A [OF ls]
      show "map_of (ClusterWorkers ?t) (cid d) = Some p'"
        using a ne f by (simp add: frame_def delete_conv')
      show "map_of (Workers ?t) (cid d) = Some (target d)"
        using a ne f by (simp add: frame_def delete_conv')
      show "\<exists>r. WorkerPids ?t p' = Some r \<and> rid r = cid d \<and> rkeepAlive r = ckeepAlive d"
        using a f by (simp add: frame_def)
      show "target d < length (heap ?t)" using a f by (simp add: frame_def)
      show "id' (heap ?t ! target d) = cid d" using a f by (simp add: frame_def)
      show "keepAlive (heap ?t ! target d) = ckeepAlive d" using a f by (simp add: frame_def)
    next
      fix i p'
      assume ch: "map_of (ClusterWorkers ?t) i = Some p'"
      then have ne: "i \<noteq> cid c" using f by (auto simp: frame_def delete_conv' split: if_splits)
      then have "map_of (ClusterWorkers s) i = Some p'"
        using ch f by (simp add: frame_def delete_conv')
      then obtain d where d: "forked s p' = Some d" "cid d = i" using B by blast
      then have "p' \<noteq> p" using live ne by auto
      then show "\<exists>d. forked ?t p' = Some d \<and> cid d = i" using d f by (simp add: frame_def)
    qed
    then show ?thesis using eh by simp
  qed
qed

lemma consistent_worker_exit:
  assumes c: "consistent s" and q: "forked s q = None \<or> q = p"
  shows "consistent (snd (worker_exit p code signal q s))"
proof (cases "forked s p")
  case None
  then show ?thesis using c by (simp add: worker_exit_def)
next
  case (Some d)
  show ?thesis
    using Some consistent_frame [OF consistent_exit_handler [OF c Some q] frame_cluster_emit_exit]
    by (simp add: worker_exit_def Let_def)
qed

lemma consistent_step:
  assumes c: "consistent s" and e: "enabled a s"
  shows "consistent (step a s)"
proof (cases a)
  case (New i ka p)
  then show ?thesis using consistent_new_Worker [OF c] e by simp
next
  case (ChildExit p code signal q)
  then show ?thesis using consistent_worker_exit [OF c] e by simp
qed (simp_all add: consistent_frame [OF c] frame_on frame_once frame_emit frame_to
      frame_broadcast frame_exit frame_reboot frame_Worker_on frame_Worker_emit frame_Worker_to
      frame_Worker_broadcast frame_Worker_getWorkers frame_Worker_getWorker
      frame_worker_online frame_worker_error frame_process_message)

lemma reachable_consistent: "reachable s \<Longrightarrow> consistent s"
  by (induction rule: reachable.induct) (simp_all add: consistent_init consistent_step)

subsection \<open>The exit and online events in a consistent state\<close>

lemma cluster_emit_exit_eq:
  assumes "WorkerPids s p = Some r"
  shows "cluster_emit_exit fs p code signal s =
    (Returned Undefined,
     s\<lparr>calls := calls s @
        (if \<not> truthy code \<or> \<not> rkeepAlive r
         then map (\<lambda>f. ExitCall f (map_of (Workers s) (rid r)) code signal) fs else [])\<rparr>)"
  using assms
proof (induction fs arbitrary: s)
  case Nil
  then show ?case by simp
next
  case (Cons f fs)
  show ?case
  proof (cases "\<not> truthy code \<or> \<not> rkeepAlive r")
    case True
    let ?t = "s\<lparr>calls := calls s @ [ExitCall f (map_of (Workers s) (rid r)) code signal]\<rparr>"
    have g: "exit_gate f p code signal s = (Returned Undefined, ?t)"
      using True Cons.prems by (auto simp: exit_gate_def)
    have "WorkerPids ?t p = Some r" using Cons.prems by simp
    from Cons.IH [OF this] show ?thesis using g True by simp
  next
    case False
    have g: "exit_gate f p code signal s = (Returned Undefined, s)"
      using False Cons.prems by (auto simp: exit_gate_def)
    from Cons.IH [OF Cons.prems] show ?thesis using g False by simp
  qed
qed

lemma cluster_emit_online_reborn:
  assumes "WorkerPids s p = Some r" and "reborn r"
  shows "cluster_emit_online ls p s = (Returned Undefined, s)"
  using assms by (induction ls) (simp_all add: online_gate_def)

lemma child_eta: "\<lparr>target = target c, cid = cid c, ckeepAlive = ckeepAlive c\<rparr> = c"
  by (cases c) simp

lemma exit_handler_respawn:
  assumes "target c < length (heap s)" and "id' (heap s ! target c) = cid c"
    and "keepAlive (heap s ! target c) = ckeepAlive c"
    and "code = Some 826 \<or> ckeepAlive c \<and> (truthy code \<or> signal = Some ''SIGKILL'')"
  shows "exit_handler c code signal q s =
    s\<lparr>Workers := AList.update (cid c) (target c) (Workers s),
      ClusterWorkers := AList.update (cid c) q (ClusterWorkers s),
      WorkerPids := (WorkerPids s)(q \<mapsto> \<lparr>rid = cid c, rkeepAlive = ckeepAlive c, reborn = True\<rparr>),
      forked := (forked s)(q \<mapsto> c)\<rparr>"
proof -
  have "(truthy code \<or> signal = Some ''SIGKILL'') \<and> ckeepAlive c \<or> code = Some 826"
    using assms(4) by blast
  then have "exit_handler c code signal q s = createWorker (target c) True q s"
    by (simp add: exit_handler_def)
  then show ?thesis using assms(1-3) by (simp add: createWorker_def lookup_def child_eta)
qed

lemma exit_handler_terminal:
  assumes "\<not> (code = Some 826 \<or> ckeepAlive c \<and> (truthy code \<or> signal = Some ''SIGKILL''))"
  shows "exit_handler c code signal q s =
    (modify (target c) (\<lambda>w. w\<lparr>state := Closed\<rparr>) s)
      \<lparr>Workers := AList.delete (cid c) (Workers s),
       ClusterWorkers := AList.delete (cid c) (ClusterWorkers s)\<rparr>"
proof -
  have "\<not> ((truthy code \<or> signal = Some ''SIGKILL'') \<and> ckeepAlive c \<or> code = Some 826)"
    using assms by blast
  then show ?thesis
    unfolding exit_handler_def by (simp only: if_False) (simp add: emit_def Let_def modify_def)
qed

text \<open>What the exit of a live child does in a consistent state.\<close>

lemma worker_exit_eq:
  assumes c: "consistent s" and live: "forked s p = Some c"
  shows "worker_exit p code signal q s =
    (let t = exit_handler c code signal q (s\<lparr>forked := (forked s)(p := None)\<rparr>)
     in (Returned Undefined,
         t\<lparr>calls := calls s @
            (if \<not> truthy code \<or> \<not> ckeepAlive c
             then map (\<lambda>f. ExitCall f (map_of (Workers t) (cid c)) code signal) (cluster_exit s)
             else [])\<rparr>))"
proof -
  let ?s0 = "s\<lparr>forked := (forked s)(p := None)\<rparr>"
  let ?t = "exit_handler c code signal q ?s0"
  have tc: "target c < length (heap s)"
    and ic: "id' (heap s ! target c) = cid c"
    and kc: "keepAlive (heap s ! target c) = ckeepAlive c"
    using c live unfolding consistent_def by blast+
  obtain r where r: "WorkerPids s p = Some r" "rid r = cid c" "rkeepAlive r = ckeepAlive c"
    using c live unfolding consistent_def by blast
  have "\<exists>r'. WorkerPids ?t p = Some r' \<and> rid r' = cid c \<and> rkeepAlive r' = ckeepAlive c \<and>
        cluster_exit ?t = cluster_exit s \<and> calls ?t = calls s"
  proof (cases "code = Some 826 \<or> ckeepAlive c \<and> (truthy code \<or> signal = Some ''SIGKILL'')")
    case True
    show ?thesis
      using r tc ic kc by (simp add: exit_handler_respawn [OF _ _ _ True])
  next
    case False
    show ?thesis
      using r by (simp add: exit_handler_terminal [OF False] modify_def)
  qed
  then obtain r' where r': "WorkerPids ?t p = Some r'" "rid r' = cid c" "rkeepAlive r' = ckeepAlive c"
    and ce: "cluster_exit ?t = cluster_exit s" and cl: "calls ?t = calls s"
    by blast
  show ?thesis
    using live cluster_emit_exit_eq [OF r'(1), of "cluster_exit s" code signal] r'(2,3) ce cl
    by (simp add: worker_exit_def Let_def)
qed

lemma truthy_iff: "truthy code \<longleftrightarrow> (\<exists>k. code = Some k \<and> k \<noteq> 0)"
  by (cases code) (simp_all add: truthy_def)


subsection \<open>Evaluating the concrete executions\<close>

lemmas model_defs =
  init_def exit_status_def lookup_def modify_def send_def process_send_def truthy_def code_val_def
  signal_val_def getValues_def createWorker_def new_Worker_def on_def once_def emit_def
  dest_id_def to_ids_def to_def broadcast_def exit_def reboot_def Worker_on_def
  Worker_broadcast_def Worker_emit_def Worker_to_def Worker_getWorkers_def
  Worker_getWorker_def online_gate_def exit_gate_def serialise_def online_handler_def
  worker_online_def exit_handler_def worker_exit_def worker_error_def process_message_def

lemma reachable_master_b: "reachable master_b"
  unfolding master_b_def
  by (intro reachable.intros) (simp_all add: model_defs)

lemma forked_master_b: "forked master_b 1 = Some \<lparr>target = 0, cid = ''b'', ckeepAlive = True\<rparr>"
  by (simp add: master_b_def model_defs)

lemma reachable_master_a: "reachable master_a"
  unfolding master_a_def
  by (intro reachable.intros) (simp_all add: model_defs)

text \<open>For a worker without keep-alive, the exit status of \<^verbatim>\<open>process.exit(826)\<close> sends
  the exit handler down its terminal branch: nothing is forked and the id is
  unregistered.\<close>

lemma reboot_status_terminal:
  assumes "reachable s" and "forked s p = Some c" and "\<not> ckeepAlive c"
  shows "forked (snd (worker_exit p (Some (exit_status 826)) signal q s)) = (forked s)(p := None) \<and>
         map_of (Workers (snd (worker_exit p (Some (exit_status 826)) signal q s))) (cid c) = None \<and>
         map_of (ClusterWorkers (snd (worker_exit p (Some (exit_status 826)) signal q s))) (cid c) = None"
proof -
  have cs: "consistent s" by (rule reachable_consistent [OF assms(1)])
  let ?s0 = "s\<lparr>forked := (forked s)(p := None)\<rparr>"
  have n: "\<not> (Some (exit_status 826) = Some 826 \<or>
              ckeepAlive c \<and> (truthy (Some (exit_status 826)) \<or> signal = Some ''SIGKILL''))"
    using assms(3) by (simp add: exit_status_def)
  have "exit_handler c (Some (exit_status 826)) signal q ?s0 =
    (modify (target c) (\<lambda>w. w\<lparr>state := Closed\<rparr>) ?s0)
      \<lparr>Workers := AList.delete (cid c) (Workers ?s0),
       ClusterWorkers := AList.delete (cid c) (ClusterWorkers ?s0)\<rparr>"
    by (rule exit_handler_terminal [OF n])
  then show ?thesis
    by (simp add: worker_exit_eq [OF cs assms(2)] Let_def delete_conv' modify_def)
qed

lemma send_each_eq:
  "send_each rs m s =
     s\<lparr>sent := sent s @ map (\<lambda>p. (p, m)) (List.map_filter (map_of (ClusterWorkers s)) rs)\<rparr>"
proof (induction rs arbitrary: s)
  case Nil
  show ?case by (simp add: map_filter_simps)
next
  case (Cons i rs)
  show ?case
    by (cases "map_of (ClusterWorkers s) i") (simp_all add: Cons.IH map_filter_simps send_def)
qed

text \<open>In the master, an emit through a handle with no receivers set and no channel for
  its id returns true and changes nothing.\<close>

lemma emit_without_channel:
  assumes "isMaster s" and "lookup (heap s) a = Some w" and "receivers w = None"
    and "map_of (ClusterWorkers s) (id' w) = None"
    and "event \<notin> {''online'', ''error'', ''exit''}"
  shows "emit a event d s = (Returned (Bool True), s)"
  using assms by (simp add: emit_def)

text \<open>The master branch of \<open>emit\<close> after \<open>to\<close>: one message to the channel of every listed
  id that has one, and the receivers are reset.\<close>

lemma master_to_emit:
  assumes "isMaster s" and "a < length (heap s)" and "event \<notin> {''online'', ''error'', ''exit''}"
  shows "fst (emit a event d (snd (to a args s))) = Returned (Bool True) \<and>
         receivers (heap (snd (emit a event d (snd (to a args s)))) ! a) = None \<and>
         sent (snd (emit a event d (snd (to a args s)))) =
           sent s @ map (\<lambda>p. (p, Message None event (Args d)))
                      (List.map_filter (map_of (ClusterWorkers s)) (to_ids (heap s) args))"
  using assms by (simp add: to_def emit_def modify_def lookup_def send_each_eq)

section \<open>The claims\<close>

text \<open>
  C1. When the master sees the exit of a child with \<open>code\<close> and \<open>signal\<close>, it respawns
  (forks a child under the same id, with \<open>reborn = true\<close> in the pid record, and keeps
  the handle registered) if and only if \<open>code\<close> is 826, or the worker is keep-alive and
  \<open>code\<close> is a non-zero number or \<open>signal\<close> is \<^verbatim>\<open>SIGKILL\<close>. In every other case no child is
  forked, the handle's state becomes \<open>Closed\<close>, and the id is removed from \<open>Workers\<close> and
  \<open>ClusterWorkers\<close>. An absent code (\<^verbatim>\<open>null\<close>) is falsy and so does not count as
  non-zero.
\<close>

theorem exit_respawns_or_closes:
  assumes "reachable s" and "forked s p = Some c"
  shows "(code = Some 826 \<or>
          ckeepAlive c \<and> ((\<exists>k. code = Some k \<and> k \<noteq> 0) \<or> signal = Some ''SIGKILL'') \<longrightarrow>
            forked (snd (worker_exit p code signal q s)) = (forked s)(p := None, q \<mapsto> c) \<and>
            WorkerPids (snd (worker_exit p code signal q s)) q =
              Some \<lparr>rid = cid c, rkeepAlive = ckeepAlive c, reborn = True\<rparr> \<and>
            map_of (Workers (snd (worker_exit p code signal q s))) (cid c) = Some (target c) \<and>
            map_of (ClusterWorkers (snd (worker_exit p code signal q s))) (cid c) = Some q) \<and>
         (\<not> (code = Some 826 \<or>
             ckeepAlive c \<and> ((\<exists>k. code = Some k \<and> k \<noteq> 0) \<or> signal = Some ''SIGKILL'')) \<longrightarrow>
            forked (snd (worker_exit p code signal q s)) = (forked s)(p := None) \<and>
            state (heap (snd (worker_exit p code signal q s)) ! target c) = Closed \<and>
            map_of (Workers (snd (worker_exit p code signal q s))) (cid c) = None \<and>
            map_of (ClusterWorkers (snd (worker_exit p code signal q s))) (cid c) = None)"
proof -
  have c: "consistent s" by (rule reachable_consistent [OF assms(1)])
  have tc: "target c < length (heap s)"
    and ic: "id' (heap s ! target c) = cid c"
    and kc: "keepAlive (heap s ! target c) = ckeepAlive c"
    using c assms(2) unfolding consistent_def by blast+
  let ?s0 = "s\<lparr>forked := (forked s)(p := None)\<rparr>"
  let ?R = "code = Some 826 \<or> ckeepAlive c \<and> (truthy code \<or> signal = Some ''SIGKILL'')"
  note e = worker_exit_eq [OF c assms(2), of code signal q]
  have r: "?R \<Longrightarrow> exit_handler c code signal q ?s0 =
    ?s0\<lparr>Workers := AList.update (cid c) (target c) (Workers ?s0),
      ClusterWorkers := AList.update (cid c) q (ClusterWorkers ?s0),
      WorkerPids := (WorkerPids ?s0)(q \<mapsto> \<lparr>rid = cid c, rkeepAlive = ckeepAlive c, reborn = True\<rparr>),
      forked := (forked ?s0)(q \<mapsto> c)\<rparr>"
    using tc ic kc by (intro exit_handler_respawn) simp_all
  have t: "\<not> ?R \<Longrightarrow> exit_handler c code signal q ?s0 =
    (modify (target c) (\<lambda>w. w\<lparr>state := Closed\<rparr>) ?s0)
      \<lparr>Workers := AList.delete (cid c) (Workers ?s0),
       ClusterWorkers := AList.delete (cid c) (ClusterWorkers ?s0)\<rparr>"
    by (rule exit_handler_terminal)
  show ?thesis
  proof (cases ?R)
    case True
    then show ?thesis
      unfolding truthy_iff [symmetric] using r [OF True]
      by (simp add: e Let_def update_conv')
  next
    case False
    then show ?thesis
      unfolding truthy_iff [symmetric] using t [OF False] tc
      by (simp add: e Let_def delete_conv' modify_def)
  qed
qed


theorem exit_respawns_or_closes_witness:
  "reachable master_b \<and>
   forked master_b 1 = Some \<lparr>target = 0, cid = ''b'', ckeepAlive = True\<rparr> \<and>
   forked (snd (worker_exit 1 (Some 1) None 2 master_b)) =
     (forked master_b)(1 := None, 2 \<mapsto> \<lparr>target = 0, cid = ''b'', ckeepAlive = True\<rparr>) \<and>
   map_of (ClusterWorkers (snd (worker_exit 1 (Some 1) None 2 master_b))) ''b'' = Some 2 \<and>
   forked (snd (worker_exit 1 (Some 0) None 2 master_b)) = (forked master_b)(1 := None) \<and>
   state (heap (snd (worker_exit 1 (Some 0) None 2 master_b)) ! 0) = Closed \<and>
   map_of (Workers (snd (worker_exit 1 (Some 0) None 2 master_b))) ''b'' = None"
  using reachable_master_b forked_master_b
    exit_respawns_or_closes [OF reachable_master_b forked_master_b, of "Some 1" None 2]
    exit_respawns_or_closes [OF reachable_master_b forked_master_b, of "Some 0" None 2]
  by simp

text \<open>
  C2. When a keep-alive worker exits with a non-zero code, then after the respawned
  child has come online the handle registered for the id is the same object, it is
  online, its own listeners and the message listeners bound to handles are what they
  were before the exit, in the same order, and no user callback has been called: neither
  event throws, and the log of calls is unchanged, so no listener of the static
  \<^verbatim>\<open>on("online")\<close> or \<^verbatim>\<open>on("exit")\<close> ran.
\<close>

theorem listeners_survive_respawn:
  assumes "reachable s" and "forked s p = Some c" and "ckeepAlive c" and "k \<noteq> 0"
  shows "fst (worker_exit p (Some k) signal q s) = Returned Undefined \<and>
         fst (worker_online q (snd (worker_exit p (Some k) signal q s))) = Returned Undefined \<and>
         (let s2 = snd (worker_online q (snd (worker_exit p (Some k) signal q s)))
          in map_of (Workers s2) (cid c) = Some (target c) \<and>
             state (heap s2 ! target c) = Online \<and>
             events (heap s2 ! target c) = events (heap s ! target c) \<and>
             cluster_message s2 = cluster_message s \<and>
             cluster_online s2 = cluster_online s \<and>
             cluster_exit s2 = cluster_exit s \<and>
             calls s2 = calls s)"
proof -
  have c: "consistent s" by (rule reachable_consistent [OF assms(1)])
  have tc: "target c < length (heap s)"
    and ic: "id' (heap s ! target c) = cid c"
    and kc: "keepAlive (heap s ! target c) = ckeepAlive c"
    using c assms(2) unfolding consistent_def by blast+
  define s0 where "s0 = s\<lparr>forked := (forked s)(p := None)\<rparr>"
  define t where "t = exit_handler c (Some k) signal q s0"
  have tr: "truthy (Some k)" using assms(4) by (simp add: truthy_def)
  have r: "t = s0\<lparr>Workers := AList.update (cid c) (target c) (Workers s0),
      ClusterWorkers := AList.update (cid c) q (ClusterWorkers s0),
      WorkerPids := (WorkerPids s0)(q \<mapsto> \<lparr>rid = cid c, rkeepAlive = ckeepAlive c, reborn = True\<rparr>),
      forked := (forked s0)(q \<mapsto> c)\<rparr>"
    unfolding t_def using tc ic kc assms(3) tr
    by (intro exit_handler_respawn) (simp_all add: s0_def)
  have t1: "forked t q = Some c" "heap t = heap s" "cluster_message t = cluster_message s"
    "cluster_online t = cluster_online s" "cluster_exit t = cluster_exit s" "calls t = calls s"
    "map_of (Workers t) (cid c) = Some (target c)"
    "WorkerPids t q = Some \<lparr>rid = cid c, rkeepAlive = ckeepAlive c, reborn = True\<rparr>"
    by (simp_all add: r s0_def update_conv')
  have "worker_exit p (Some k) signal q s = (Returned Undefined, t\<lparr>calls := calls s\<rparr>)"
    using worker_exit_eq [OF c assms(2), of "Some k" signal q] tr assms(3)
    by (simp add: Let_def t_def s0_def)
  moreover have "t\<lparr>calls := calls s\<rparr> = t"
    unfolding t1(6) [symmetric] by simp
  ultimately have e: "worker_exit p (Some k) signal q s = (Returned Undefined, t)"
    by simp
  define h where "h = online_handler c q t"
  have h1: "heap h = (heap s)[target c := (heap s ! target c)\<lparr>state := Online\<rparr>]"
    "cluster_message h = cluster_message s" "cluster_online h = cluster_online s"
    "cluster_exit h = cluster_exit s" "calls h = calls s"
    "map_of (Workers h) (cid c) = Some (target c)"
    "WorkerPids h q = Some \<lparr>rid = cid c, rkeepAlive = ckeepAlive c, reborn = True\<rparr>"
    using tc t1 by (simp_all add: h_def online_handler_def Let_def send_def modify_def)
  have o: "worker_online q t = (Returned Undefined, h)"
    using cluster_emit_online_reborn [OF h1(7), of "cluster_online h"] t1(1)
    by (simp add: worker_online_def Let_def h_def)
  show ?thesis
    using tc by (simp add: e o Let_def h1)
qed

theorem listeners_survive_respawn_witness:
  "reachable master_b \<and>
   forked master_b 1 = Some \<lparr>target = 0, cid = ''b'', ckeepAlive = True\<rparr> \<and>
   ckeepAlive \<lparr>target = 0, cid = ''b'', ckeepAlive = True\<rparr> \<and> (1::int) \<noteq> 0 \<and>
   events (heap (snd (worker_online 2 (snd (worker_exit 1 (Some 1) None 2 master_b)))) ! 0) =
     events (heap master_b ! 0) \<and>
   cluster_message (snd (worker_online 2 (snd (worker_exit 1 (Some 1) None 2 master_b)))) =
     cluster_message master_b \<and>
   calls (snd (worker_online 2 (snd (worker_exit 1 (Some 1) None 2 master_b)))) =
     calls master_b"
  using reachable_master_b forked_master_b
    listeners_survive_respawn [OF reachable_master_b forked_master_b, of 1 None 2]
  by (simp add: Let_def)

text \<open>
  C3 asks that \<^verbatim>\<open>reboot()\<close> in the master closes the handle and sends the bare string
  \<^verbatim>\<open>----reboot----\<close>, that the worker receiving it exits with code 826, that this exit
  triggers exactly one respawn under the same id, and that no user \<^verbatim>\<open>exit\<close> listener
  fires. The first two steps happen: the handle is closed, the string is sent, and
  the worker calls \<^verbatim>\<open>process.exit(826)\<close>. But the status the master then sees is
  \<open>826 mod 256 = 58\<close>, which is not \<open>826\<close>. For the worker \<open>a\<close> without keep-alive the
  exit handler takes its terminal branch: no child is forked, the id is removed from
  \<open>Workers\<close> and \<open>ClusterWorkers\<close>, and the listener of the static \<^verbatim>\<open>on("exit")\<close> is
  called, with no worker and the code 58.
\<close>

theorem reboot_does_not_restart:
  "state (heap (step (Reboot 0) master_a) ! 0) = Closed \<and>
   sent (step (Reboot 0) master_a) = sent master_a @ [(1, Bare ''----reboot----'')] \<and>
   fst (process_message (Bare ''----reboot----'') worker_a) = Terminated \<and>
   exited (snd (process_message (Bare ''----reboot----'') worker_a)) = Some (Some 826) \<and>
   exit_status 826 = 58 \<and>
   forked master_a 1 = Some \<lparr>target = 0, cid = ''a'', ckeepAlive = False\<rparr> \<and>
   forked master_a_rebooted = Map.empty \<and>
   Workers master_a_rebooted = [] \<and>
   ClusterWorkers master_a_rebooted = [] \<and>
   calls master_a_rebooted = [ExitCall 7 None (Some 58) None]"
  by (simp add: master_a_rebooted_def master_a_def worker_a_def model_defs)

text \<open>
  C4 asks that \<^verbatim>\<open>exit()\<close> on a worker without keep-alive leads to one \<^verbatim>\<open>exit\<close> event
  delivered to the listeners registered with \<^verbatim>\<open>handle.on("exit", ...)\<close>, and that later
  emits through the id return true and send nothing. In the execution
  \<^verbatim>\<open>h = new Worker("a"); h.on("exit", f)\<close>, child online, \<^verbatim>\<open>h.exit()\<close>, child exits on
  \<^verbatim>\<open>SIGTERM\<close>, the listener stays registered on the handle, the child is killed and the
  handle closed and unregistered, but no callback at all has been called: the exit
  handler's \<^verbatim>\<open>target.emit("exit", code, signal)\<close> goes through the overriding \<open>emit\<close>,
  which returns false for \<^verbatim>\<open>exit\<close>. The second half of the claim holds there.
\<close>

theorem handle_exit_listener_not_called:
  "events (heap master_a_exited ! 0) = [(''exit'', Fn 7, False)] \<and>
   killed master_a_exited = [1] \<and>
   state (heap master_a_exited ! 0) = Closed \<and>
   forked master_a_exited 1 = None \<and>
   map_of (ClusterWorkers master_a_exited) ''a'' = None \<and>
   calls master_a_exited = [] \<and>
   emit 0 ''ping'' [Num 1] master_a_exited = (Returned (Bool True), master_a_exited)"
  by (simp add: master_a_exited_def model_defs)

text \<open>
  C5 asks that after \<^verbatim>\<open>to(...)\<close> and an emit the receivers of the handle are empty, in
  either role. In a worker, after \<^verbatim>\<open>handle.to("b").emit("ping", 42)\<close> the relayed message
  carries exactly the listed ids, but the receivers are still \<^verbatim>\<open>["b"]\<close>, and the next
  plain emit is relayed to \<open>b\<close> as well. (In the master the receivers are reset: lemma
  \<open>master_to_emit\<close>.)
\<close>

theorem worker_receivers_not_cleared:
  "process_sent worker_a_pinged =
     [Message (Some ''a'') ''----transmit----'' (Wrapped (Some [''b'']) ''ping'' [Num 42])] \<and>
   receivers (heap worker_a_pinged ! 0) = Some [''b''] \<and>
   process_sent (snd (emit 0 ''pong'' [] worker_a_pinged)) =
     [Message (Some ''a'') ''----transmit----'' (Wrapped (Some [''b'']) ''ping'' [Num 42]),
      Message (Some ''a'') ''----transmit----'' (Wrapped (Some [''b'']) ''pong'' [])]"
  by (simp add: worker_a_pinged_def worker_a_def model_defs)

text \<open>
  C6, as amended. For each of the event names \<^verbatim>\<open>online\<close>, \<^verbatim>\<open>error\<close> and \<^verbatim>\<open>exit\<close>,
  \<^verbatim>\<open>handle.emit\<close> returns false and leaves the whole process state, and with it every
  channel, untouched, in the master and in a worker.
\<close>

theorem emit_lifecycle_rejected:
  "emit this ''online'' d s = (Returned (Bool False), s) \<and>
   emit this ''error'' d s = (Returned (Bool False), s) \<and>
   emit this ''exit'' d s = (Returned (Bool False), s)"
  by (simp add: emit_def)

text \<open>
  C6, as stated, fails for the control names: in a worker, \<^verbatim>\<open>handle.emit("----transmit----")\<close>
  returns true and sends a message to the master.
\<close>

theorem emit_control_name_counterexample:
  "fst (emit 0 ''----transmit----'' [] worker_a) = Returned (Bool True) \<and>
   process_sent (snd (emit 0 ''----transmit----'' [] worker_a)) =
     [Message (Some ''a'') ''----transmit----'' (Args [])]"
  by (simp add: worker_a_def model_defs)

text \<open>
  C7 asks that the static \<^verbatim>\<open>getWorkers\<close> in the master yields exactly the handles whose
  state is online. Right after \<^verbatim>\<open>new Worker("a")\<close> the callback receives the handle while
  its state is \<open>Connecting\<close>, and after \<^verbatim>\<open>reboot()\<close> the promise resolves with the handle
  while its state is \<open>Closed\<close>: \<^verbatim>\<open>getValues(Workers)\<close> is passed on without a test of the
  state.
\<close>

theorem getWorkers_returns_unconnected:
  "state (heap master_a_connecting ! 0) = Connecting \<and>
   Worker_getWorkers (Some 9) master_a_connecting =
     (Returned Undefined, master_a_connecting\<lparr>calls := [WorkersCall 9 [0]]\<rparr>) \<and>
   state (heap (step (Reboot 0) master_a) ! 0) = Closed \<and>
   fst (Worker_getWorkers None (step (Reboot 0) master_a)) = Returned (Resolved [0])"
  by (simp add: master_a_connecting_def master_a_def model_defs)

text \<open>
  C8. In every reachable state at most one live child exists for an id: two live
  children with the same id are the same process. Constructing a Worker whose id has a
  registered handle (whatever its state, so in particular when it is not closed) forks
  nothing, and this is the case whenever a child for the id is live; a respawn removes
  the child that exited and adds exactly the new one in its place.
\<close>

theorem one_child_per_id:
  assumes "reachable s"
  shows "(\<forall>p q c d. forked s p = Some c \<and> forked s q = Some d \<and> cid c = cid d \<longrightarrow> p = q) \<and>
         (\<forall>i a ka q. map_of (Workers s) i = Some a \<longrightarrow>
            forked (snd (new_Worker i ka q s)) = forked s) \<and>
         (\<forall>p c ka q. forked s p = Some c \<longrightarrow>
            forked (snd (new_Worker (cid c) ka q s)) = forked s) \<and>
         (\<forall>p c code signal q.
            forked s p = Some c \<and>
            (code = Some 826 \<or>
             ckeepAlive c \<and> ((\<exists>k. code = Some k \<and> k \<noteq> 0) \<or> signal = Some ''SIGKILL'')) \<longrightarrow>
            forked (snd (worker_exit p code signal q s)) = (forked s)(p := None, q \<mapsto> c))"
proof -
  have cs: "consistent s" by (rule reachable_consistent [OF assms])
  have 1: "\<forall>p q c d. forked s p = Some c \<and> forked s q = Some d \<and> cid c = cid d \<longrightarrow> p = q"
    using consistent_unique [OF cs] by blast
  have 2: "\<forall>i a ka q. map_of (Workers s) i = Some a \<longrightarrow>
            forked (snd (new_Worker i ka q s)) = forked s"
    by (simp add: new_Worker_def Let_def)
  have 3: "\<forall>p c ka q. forked s p = Some c \<longrightarrow>
            forked (snd (new_Worker (cid c) ka q s)) = forked s"
  proof (intro allI impI)
    fix p c ka q
    assume "forked s p = Some c"
    then have "map_of (Workers s) (cid c) = Some (target c)"
      using cs unfolding consistent_def by blast
    then show "forked (snd (new_Worker (cid c) ka q s)) = forked s"
      by (simp add: new_Worker_def Let_def)
  qed
  have 4: "\<forall>p c (code :: int option) signal q.
            forked s p = Some c \<and>
            (code = Some 826 \<or>
             ckeepAlive c \<and> ((\<exists>k. code = Some k \<and> k \<noteq> 0) \<or> signal = Some ''SIGKILL'')) \<longrightarrow>
            forked (snd (worker_exit p code signal q s)) = (forked s)(p := None, q \<mapsto> c)"
  proof (intro allI impI, elim conjE)
    fix p c and code :: "int option" and signal q
    assume live: "forked s p = Some c"
      and "code = Some 826 \<or>
             ckeepAlive c \<and> ((\<exists>k. code = Some k \<and> k \<noteq> 0) \<or> signal = Some ''SIGKILL'')"
    then have R: "code = Some 826 \<or> ckeepAlive c \<and> (truthy code \<or> signal = Some ''SIGKILL'')"
      by (simp add: truthy_iff)
    have tc: "target c < length (heap s)"
      and ic: "id' (heap s ! target c) = cid c"
      and kc: "keepAlive (heap s ! target c) = ckeepAlive c"
      using cs live unfolding consistent_def by blast+
    let ?s0 = "s\<lparr>forked := (forked s)(p := None)\<rparr>"
    have "exit_handler c code signal q ?s0 =
      ?s0\<lparr>Workers := AList.update (cid c) (target c) (Workers ?s0),
        ClusterWorkers := AList.update (cid c) q (ClusterWorkers ?s0),
        WorkerPids := (WorkerPids ?s0)(q \<mapsto> \<lparr>rid = cid c, rkeepAlive = ckeepAlive c, reborn = True\<rparr>),
        forked := (forked ?s0)(q \<mapsto> c)\<rparr>"
      using tc ic kc R by (intro exit_handler_respawn) simp_all
    then show "forked (snd (worker_exit p code signal q s)) = (forked s)(p := None, q \<mapsto> c)"
      by (simp add: worker_exit_eq [OF cs live] Let_def)
  qed
  show ?thesis by (intro conjI 1 2 3 4)
qed

theorem one_child_per_id_witness:
  "reachable master_b \<and>
   forked master_b 3 \<noteq> Some \<lparr>target = 0, cid = ''b'', ckeepAlive = True\<rparr> \<and>
   forked (snd (new_Worker ''b'' False 2 master_b)) = forked master_b \<and>
   forked (snd (worker_exit 1 (Some 1) None 2 master_b)) =
     (forked master_b)(1 := None, 2 \<mapsto> \<lparr>target = 0, cid = ''b'', ckeepAlive = True\<rparr>)"
proof -
  let ?c = "\<lparr>target = 0, cid = ''b'', ckeepAlive = True\<rparr>"
  note t = one_child_per_id [OF reachable_master_b]
  have "\<forall>p q c d. forked master_b p = Some c \<and> forked master_b q = Some d \<and> cid c = cid d \<longrightarrow> p = q"
    using t by (rule conjunct1)
  then have "forked master_b 1 = Some ?c \<and> forked master_b 3 = Some ?c \<and> cid ?c = cid ?c \<longrightarrow>
      (1::nat) = 3"
    by (elim allE)
  then have 1: "forked master_b 3 \<noteq> Some ?c"
    using forked_master_b by auto
  have "\<forall>p c ka q. forked master_b p = Some c \<longrightarrow>
            forked (snd (new_Worker (cid c) ka q master_b)) = forked master_b"
    using t by (elim conjE)
  then have "forked master_b 1 = Some ?c \<longrightarrow>
      forked (snd (new_Worker (cid ?c) False 2 master_b)) = forked master_b"
    by (elim allE)
  then have 2: "forked (snd (new_Worker ''b'' False 2 master_b)) = forked master_b"
    using forked_master_b by simp
  have "\<forall>p c (code :: int option) signal q.
            forked master_b p = Some c \<and>
            (code = Some 826 \<or>
             ckeepAlive c \<and> ((\<exists>k. code = Some k \<and> k \<noteq> 0) \<or> signal = Some ''SIGKILL'')) \<longrightarrow>
            forked (snd (worker_exit p code signal q master_b)) = (forked master_b)(p := None, q \<mapsto> c)"
    using t by (elim conjE)
  then have "forked master_b 1 = Some ?c \<and>
            (Some 1 = Some (826::int) \<or>
             ckeepAlive ?c \<and> ((\<exists>k. Some 1 = Some k \<and> k \<noteq> (0::int)) \<or> None = Some ''SIGKILL'')) \<longrightarrow>
            forked (snd (worker_exit 1 (Some 1) None 2 master_b)) = (forked master_b)(1 := None, 2 \<mapsto> ?c)"
    by (elim allE)
  then have 3: "forked (snd (worker_exit 1 (Some 1) None 2 master_b)) =
     (forked master_b)(1 := None, 2 \<mapsto> ?c)"
    using forked_master_b by simp
  show ?thesis by (intro conjI reachable_master_b 1 2 3)
qed

text \<open>
  C9. In a worker process the static \<^verbatim>\<open>emit\<close> and \<^verbatim>\<open>broadcast\<close> with an event name that is
  not \<^verbatim>\<open>online\<close>, \<^verbatim>\<open>error\<close> or \<^verbatim>\<open>exit\<close>, the static \<^verbatim>\<open>to\<close>, and the static
  \<^verbatim>\<open>getWorkers\<close> with a callback throw a ReferenceError; in the master the static
  \<^verbatim>\<open>getWorker\<close> throws an Error. Each call leaves the process state as it was.
\<close>

theorem static_misuse_throws:
  assumes "\<not> isMaster s" and "event \<notin> {''online'', ''error'', ''exit''}" and "isMaster m"
  shows "Worker_emit event d s = (Threw ReferenceError, s) \<and>
         Worker_to args s = (Threw ReferenceError, s) \<and>
         Worker_broadcast event d s = (Threw ReferenceError, s) \<and>
         Worker_getWorkers (Some cb) s = (Threw ReferenceError, s) \<and>
         Worker_getWorker cb' m = (Threw Error, m)"
  using assms
  by (simp add: Worker_emit_def Worker_broadcast_def Worker_to_def Worker_getWorkers_def
      Worker_getWorker_def)

theorem static_misuse_throws_witness:
  "\<not> isMaster worker_a \<and> ''ping'' \<notin> {''online'', ''error'', ''exit''} \<and>
   isMaster master_a_connecting \<and>
   Worker_emit ''ping'' [Num 1] worker_a = (Threw ReferenceError, worker_a) \<and>
   Worker_to (Rest [Id ''b'']) worker_a = (Threw ReferenceError, worker_a) \<and>
   Worker_broadcast ''ping'' [Num 1] worker_a = (Threw ReferenceError, worker_a) \<and>
   Worker_getWorkers (Some 3) worker_a = (Threw ReferenceError, worker_a) \<and>
   Worker_getWorker (Some 3) master_a_connecting = (Threw Error, master_a_connecting)"
proof -
  have w: "\<not> isMaster worker_a" by (simp add: worker_a_def model_defs)
  have e: "''ping'' \<notin> {''online'', ''error'', ''exit''}" by simp
  have m: "isMaster master_a_connecting" by (simp add: master_a_connecting_def model_defs)
  show ?thesis
    using w e m static_misuse_throws [OF w e m, of "[Num 1]" "Rest [Id ''b'']" 3 "Some 3"]
    by simp
qed

text \<open>
  C10. In a worker process the static \<^verbatim>\<open>emit\<close> and the static \<^verbatim>\<open>broadcast\<close> with an event
  name among \<^verbatim>\<open>online\<close>, \<^verbatim>\<open>error\<close>, \<^verbatim>\<open>exit\<close> return false and do not throw: the name is
  checked before the role.
\<close>

theorem static_lifecycle_returns_false:
  assumes "\<not> isMaster s" and "event \<in> {''online'', ''error'', ''exit''}"
  shows "Worker_emit event d s = (Returned (Bool False), s) \<and>
         Worker_broadcast event d s = (Returned (Bool False), s)"
  using assms by (auto simp: Worker_emit_def Worker_broadcast_def)

theorem static_lifecycle_returns_false_witness:
  "\<not> isMaster worker_a \<and> ''exit'' \<in> {''online'', ''error'', ''exit''} \<and>
   Worker_emit ''exit'' [] worker_a = (Returned (Bool False), worker_a) \<and>
   Worker_broadcast ''exit'' [] worker_a = (Returned (Bool False), worker_a)"
proof -
  have w: "\<not> isMaster worker_a" by (simp add: worker_a_def model_defs)
  have e: "''exit'' \<in> {''online'', ''error'', ''exit''}" by simp
  show ?thesis
    using w e static_lifecycle_returns_false [OF w e, of "[]"] by simp
qed

end
